theory Spec2Isabelle
  imports Main "HOL-Library.Sublist"
begin

section \<open>Python values and effects used by edk2\_coverage.py\<close>

text \<open>
  The module \<^verbatim>\<open>edk2toolext/invocables/edk2_coverage.py\<close> declares the settings
  contract \<^verbatim>\<open>CoverageSettingsManager\<close> and the invocable \<^verbatim>\<open>Edk2Coverage\<close>.
  Python strings are modelled as \<^typ>\<open>string\<close>, Python's unbounded integers as
  \<^typ>\<open>int\<close>, and an attribute that holds either a \<^verbatim>\<open>str\<close> or \<^verbatim>\<open>None\<close> as
  \<^typ>\<open>string option\<close> (\<^term>\<open>None\<close> is Python's \<^verbatim>\<open>None\<close>).
  A raised exception is a left injection of the result.
\<close>

datatype py_exception = TypeError | AttributeError | SystemExit

text \<open>The three calls into the \<^verbatim>\<open>logging\<close> module that the file makes.\<close>

datatype log_level = DEBUG | ERROR | CRITICAL

type_synonym log_record = "log_level \<times> string"

text \<open>
  \<^verbatim>\<open>str(rc)\<close> on an integer: the decimal digits, with a minus sign for a negative
  number.
\<close>

definition digit_char :: "nat \<Rightarrow> char" where
  "digit_char d = char_of (48 + d)"

fun str_nat :: "nat \<Rightarrow> string" where
  "str_nat n = (if n < 10 then [digit_char n] else str_nat (n div 10) @ [digit_char (n mod 10)])"

declare str_nat.simps [simp del]

definition str_int :: "int \<Rightarrow> string" where
  "str_int i = (if i < 0 then CHR ''-'' # str_nat (nat (- i)) else str_nat (nat i))"

section \<open>CoverageSettingsManager\<close>

text \<open>
  The settings contract has two operations without arguments, each returning a list of
  file patterns. An object of the class (or of a platform's subclass, which is a record
  extension) is given by what the two operations return.
\<close>

record CoverageSettingsManager =
  GetCoverageExclusionList :: "string list"
  GetCoverageInclusionList :: "string list"

text \<open>The class as the file declares it: both operations return \<^verbatim>\<open>[]\<close>.\<close>

definition default_CoverageSettingsManager :: CoverageSettingsManager where
  "default_CoverageSettingsManager =
     \<lparr>GetCoverageExclusionList = [], GetCoverageInclusionList = []\<rparr>"

section \<open>The argument parser\<close>

text \<open>
  \<^verbatim>\<open>argparse\<close> is Python's library; the file uses \<^verbatim>\<open>add_argument\<close> with one option
  string, a destination, \<^verbatim>\<open>type=str\<close>, a default and a help text, which registers a
  storing argument. A parser is its \<^verbatim>\<open>allow_abbrev\<close> setting and the list of its
  registered arguments, in registration order. A default is a Python value
  (\<^verbatim>\<open>argparse\<close> uses \<^verbatim>\<open>None\<close> where none is given).
\<close>

record argument =
  option_string :: string
  dest :: string
  default_value :: "string option"
  help_text :: string

record ArgumentParser =
  allow_abbrev :: bool
  actions :: "argument list"

definition add_argument ::
  "ArgumentParser \<Rightarrow> string \<Rightarrow> string \<Rightarrow> string \<Rightarrow> string \<Rightarrow> ArgumentParser" where
  "add_argument parserObj opt d dflt h =
     parserObj\<lparr>actions := actions parserObj @
       [\<lparr>option_string = opt, dest = d, default_value = Some dflt, help_text = h\<rparr>]\<rparr>"

text \<open>
  The parsed namespace maps an attribute name to its Python value; a name outside the
  domain is an attribute the namespace does not have.
\<close>

type_synonym Namespace = "string \<rightharpoonup> string option"

text \<open>
  Defaults: every registered argument whose destination is not yet set gets its default
  (the first registration of a destination wins).
\<close>

definition add_default :: "argument \<Rightarrow> Namespace \<Rightarrow> Namespace" where
  "add_default a ns =
     (case ns (dest a) of None \<Rightarrow> ns(dest a \<mapsto> default_value a) | Some _ \<Rightarrow> ns)"

text \<open>
  Which argument a command-line token selects follows \<^verbatim>\<open>argparse\<close>'s
  \<^verbatim>\<open>_parse_optional\<close> and \<^verbatim>\<open>_get_option_tuples\<close>. \<open>startswith s pre\<close> is Python's
  \<^verbatim>\<open>s.startswith(pre)\<close>, and \<open>partition_eq s\<close> is \<^verbatim>\<open>s.partition('=')\<close>: the text before
  the first \<^verbatim>\<open>=\<close>, and the text after it when there is one.
\<close>

definition startswith :: "string \<Rightarrow> string \<Rightarrow> bool" where
  "startswith s pre = (take (length pre) s = pre)"

definition partition_eq :: "string \<Rightarrow> string \<times> string option" where
  "partition_eq s =
     (if CHR ''='' \<in> set s
      then (takeWhile (\<lambda>c. c \<noteq> CHR ''='') s, Some (tl (dropWhile (\<lambda>c. c \<noteq> CHR ''='') s)))
      else (s, None))"

text \<open>
  The candidates for a token that is no registered option string: each comes with the
  value the token itself carries, if any. A token starting with two dashes matches every
  option string it abbreviates, when the parser allows abbreviations. A token starting
  with one dash matches the option string equal to its first two characters, the rest of
  the token being the value, and every option string it abbreviates.
\<close>

definition get_option_tuples :: "ArgumentParser \<Rightarrow> string \<Rightarrow> (argument \<times> string option) list" where
  "get_option_tuples parserObj s =
     (case s of
        c0 # c1 # _ \<Rightarrow>
          if c1 = CHR ''-''
          then (if allow_abbrev parserObj
                then map (\<lambda>a. (a, snd (partition_eq s)))
                       (filter (\<lambda>a. startswith (option_string a) (fst (partition_eq s)))
                          (actions parserObj))
                else [])
          else concat (map (\<lambda>a. if option_string a = take 2 s then [(a, Some (drop 2 s))]
                                  else if startswith (option_string a) s then [(a, None)]
                                  else [])
                         (actions parserObj))
      | _ \<Rightarrow> [])"

text \<open>
  The result for one token: the argument selected and the value the token carries (if
  any); \<^term>\<open>None\<close> when the token is a positional argument or selects no registered
  argument; the parser's error exit when the token is ambiguous.
\<close>

definition parse_optional ::
  "ArgumentParser \<Rightarrow> string \<Rightarrow> py_exception + (argument \<times> string option) option" where
  "parse_optional parserObj s =
     (if s = '''' then Inr None
      else if hd s \<noteq> CHR ''-'' then Inr None
      else (case find (\<lambda>a. option_string a = s) (actions parserObj) of
              Some a \<Rightarrow> Inr (Some (a, None))
            | None \<Rightarrow>
                if length s = 1 then Inr None
                else (case (snd (partition_eq s),
                            find (\<lambda>a. option_string a = fst (partition_eq s)) (actions parserObj)) of
                        (Some explicit_arg, Some a) \<Rightarrow> Inr (Some (a, Some explicit_arg))
                      | _ \<Rightarrow>
                          (case get_option_tuples parserObj s of
                             [] \<Rightarrow> Inr None
                           | [option_tuple] \<Rightarrow> Inr (Some option_tuple)
                           | _ \<Rightarrow> Inl SystemExit))))"

text \<open>
  The command line is given as the list of its option tokens in order, each paired with
  the word the parser takes as the argument's value when the token carries none (the word
  after the token). A selected argument stores the value the token carries, or else that
  word, at its destination; a token that selects nothing stores nothing. The token
  \<^verbatim>\<open>--\<close> ends the options: what follows it is positional.
\<close>

fun store_options ::
  "ArgumentParser \<Rightarrow> (string \<times> string) list \<Rightarrow> Namespace \<Rightarrow> py_exception + Namespace" where
  "store_options parserObj [] ns = Inr ns"
| "store_options parserObj (ov # rest) ns =
     (if fst ov = ''--'' then Inr ns
      else (case parse_optional parserObj (fst ov) of
              Inl e \<Rightarrow> Inl e
            | Inr None \<Rightarrow> store_options parserObj rest ns
            | Inr (Some (a, explicit_arg)) \<Rightarrow>
                store_options parserObj rest
                  (ns(dest a \<mapsto> Some (case explicit_arg of None \<Rightarrow> snd ov | Some v \<Rightarrow> v)))))"

definition parse_args ::
  "ArgumentParser \<Rightarrow> (string \<times> string) list \<Rightarrow> py_exception + Namespace" where
  "parse_args parserObj argv =
     store_options parserObj argv (fold add_default (actions parserObj) Map.empty)"

text \<open>Reading \<^verbatim>\<open>args.name\<close>: an \<^verbatim>\<open>AttributeError\<close> when the namespace has no such attribute.\<close>

definition getattr_ns :: "Namespace \<Rightarrow> string \<Rightarrow> py_exception + string option" where
  "getattr_ns args name = (case args name of None \<Rightarrow> Inl AttributeError | Some v \<Rightarrow> Inr v)"

section \<open>Edk2Coverage\<close>

text \<open>
  The instance: the three configuration attributes, the platform settings object, the
  state of the base class \<^verbatim>\<open>Edk2MultiPkgAwareInvocable\<close> (not part of this file, kept
  abstract), and a trace of the assignments \<^verbatim>\<open>self.<name> = ...\<close> to the configuration
  attributes, in execution order.
\<close>

record ('p, 'b) Edk2Coverage =
  coverage_files :: "string option"
  report_type :: "string option"
  output_dir :: "string option"
  PlatformSettings :: "'p CoverageSettingsManager_scheme"
  inherited :: 'b
  assigned :: "string list"

subsection \<open>AddCommandLineOptions\<close>

text \<open>
  Three \<^verbatim>\<open>add_argument\<close> calls, then the base class adds its own arguments; what the base
  class registers is the parameter \<open>super_AddCommandLineOptions\<close>.
\<close>

definition AddCommandLineOptions ::
  "(ArgumentParser \<Rightarrow> ArgumentParser) \<Rightarrow> ArgumentParser \<Rightarrow> ArgumentParser" where
  "AddCommandLineOptions super_AddCommandLineOptions parserObj =
     (let parserObj = add_argument parserObj ''--coverage-files'' ''coverage_files''
                        ''Build/**/coverage.xml'' ''Provide the paths to the coverage files'';
          parserObj = add_argument parserObj ''--report-type'' ''report_type''
                        ''Cobertura'' ''Provide the type of report desired such as Cobertura or Html'';
          parserObj = add_argument parserObj ''--output-dir'' ''output_dir''
                        ''Build/Coverage'' ''Provide directory where resulting files are placed''
      in super_AddCommandLineOptions parserObj)"

subsection \<open>RetrieveCommandLineOptions\<close>

definition set_coverage_files ::
  "string option \<Rightarrow> ('p, 'b) Edk2Coverage \<Rightarrow> ('p, 'b) Edk2Coverage" where
  "set_coverage_files v self = self\<lparr>coverage_files := v, assigned := assigned self @ [''coverage_files'']\<rparr>"

definition set_report_type ::
  "string option \<Rightarrow> ('p, 'b) Edk2Coverage \<Rightarrow> ('p, 'b) Edk2Coverage" where
  "set_report_type v self = self\<lparr>report_type := v, assigned := assigned self @ [''report_type'']\<rparr>"

definition set_output_dir ::
  "string option \<Rightarrow> ('p, 'b) Edk2Coverage \<Rightarrow> ('p, 'b) Edk2Coverage" where
  "set_output_dir v self = self\<lparr>output_dir := v, assigned := assigned self @ [''output_dir'']\<rparr>"

text \<open>
  The three assignments in the order of the source, each reading an attribute of
  \<open>args\<close>, then the base class's retrieval, which works on the base class's state
  (the parameter \<open>super_RetrieveCommandLineOptions\<close>).
\<close>

definition RetrieveCommandLineOptions ::
  "(Namespace \<Rightarrow> 'b \<Rightarrow> py_exception + 'b) \<Rightarrow> Namespace \<Rightarrow> ('p, 'b) Edk2Coverage
     \<Rightarrow> py_exception + ('p, 'b) Edk2Coverage" where
  "RetrieveCommandLineOptions super_RetrieveCommandLineOptions args self =
     (case getattr_ns args ''coverage_files'' of
        Inl e \<Rightarrow> Inl e
      | Inr cf \<Rightarrow>
          let self = set_coverage_files cf self in
          (case getattr_ns args ''report_type'' of
             Inl e \<Rightarrow> Inl e
           | Inr rt \<Rightarrow>
               let self = set_report_type rt self in
               (case getattr_ns args ''output_dir'' of
                  Inl e \<Rightarrow> Inl e
                | Inr od \<Rightarrow>
                    let self = set_output_dir od self in
                    (case super_RetrieveCommandLineOptions args (inherited self) of
                       Inl e \<Rightarrow> Inl e
                     | Inr b \<Rightarrow> Inr (self\<lparr>inherited := b\<rparr>)))))"

subsection \<open>The small accessors\<close>

definition GetVerifyCheckRequired :: bool where
  "GetVerifyCheckRequired = False"

definition GetSettingsClass :: CoverageSettingsManager where
  "GetSettingsClass = default_CoverageSettingsManager"

definition GetLoggingFileName :: "'t \<Rightarrow> string" where
  "GetLoggingFileName loggerType = ''COVERAGE''"

subsection \<open>Go\<close>

text \<open>
  The two \<^verbatim>\<open>for\<close> loops of \<^verbatim>\<open>Go\<close> have the same body up to the sign character; one
  function, recursive over the list that the loop walks, models both. The third argument
  is the value of the variable \<^verbatim>\<open>file_filters\<close> when the loop is entered.
\<close>

fun append_filters :: "string \<Rightarrow> string list \<Rightarrow> string \<Rightarrow> string" where
  "append_filters sign [] file_filters = file_filters"
| "append_filters sign (file_path # rest) file_filters =
     append_filters sign rest
       ((if file_filters \<noteq> '''' then file_filters @ '';'' else file_filters) @ sign @ file_path)"

text \<open>The local variables of \<^verbatim>\<open>Go\<close>, each as the source computes it.\<close>

definition Go_includes :: "('p, 'b) Edk2Coverage \<Rightarrow> string list" where
  "Go_includes self = [] @ GetCoverageInclusionList (PlatformSettings self)"

definition Go_excludes :: "('p, 'b) Edk2Coverage \<Rightarrow> string list" where
  "Go_excludes self = [''*AutoGen.c'', ''*UnitTest*''] @ GetCoverageExclusionList (PlatformSettings self)"

definition build_file_filters :: "string list \<Rightarrow> string list \<Rightarrow> string" where
  "build_file_filters excludes includes =
     append_filters ''+'' includes (append_filters ''-'' excludes '''')"

definition Go_file_filters :: "('p, 'b) Edk2Coverage \<Rightarrow> string" where
  "Go_file_filters self = build_file_filters (Go_excludes self) (Go_includes self)"

definition build_args :: "string \<Rightarrow> string \<Rightarrow> string \<Rightarrow> string \<Rightarrow> string" where
  "build_args cf od rt file_filters =
     (let args = '' -reports:'' @ cf;
          args = args @ '' -targetdir:'' @ od;
          args = args @ '' -reporttypes:'' @ rt;
          args = args @ '' -filefilters:'' @ file_filters
      in args)"

text \<open>
  What one call of \<^verbatim>\<open>Go\<close> does: its result (the returned integer, or the exception
  raised), the records logged, the external commands run through \<^verbatim>\<open>RunCmd\<close> (command
  and argument string), and the instance afterwards.
\<close>

record ('p, 'b) outcome =
  returned :: "py_exception + int"
  logged :: "log_record list"
  invoked :: "(string \<times> string) list"
  self_after :: "('p, 'b) Edk2Coverage"

text \<open>
  \<^verbatim>\<open>RunCmd\<close> belongs to \<^verbatim>\<open>edk2toollib\<close> and runs an external process; it is the
  parameter \<open>RunCmd\<close>, from the command and its argument string to the exit code.
  Concatenating a \<^verbatim>\<open>str\<close> with \<^verbatim>\<open>None\<close> raises \<^verbatim>\<open>TypeError\<close>.
\<close>

definition Go :: "(string \<Rightarrow> string \<Rightarrow> int) \<Rightarrow> ('p, 'b) Edk2Coverage \<Rightarrow> ('p, 'b) outcome" where
  "Go RunCmd self =
     (let includes = Go_includes self;
          excludes = Go_excludes self
      in case coverage_files self of
           None \<Rightarrow>
             \<lparr>returned = Inr (- 1),
              logged = [(ERROR, ''Path to coverage file is required!\<newline>'')],
              invoked = [], self_after = self\<rparr>
         | Some cf \<Rightarrow>
             let file_filters = build_file_filters excludes includes in
             (case output_dir self of
                None \<Rightarrow> \<lparr>returned = Inl TypeError, logged = [], invoked = [], self_after = self\<rparr>
              | Some od \<Rightarrow>
                  (case report_type self of
                     None \<Rightarrow> \<lparr>returned = Inl TypeError, logged = [], invoked = [], self_after = self\<rparr>
                   | Some rt \<Rightarrow>
                       let args = build_args cf od rt file_filters;
                           rc = RunCmd ''reportgenerator'' args
                       in if rc = 0
                          then \<lparr>returned = Inr 0,
                                logged = [(DEBUG, ''reportgenerator command returned successfully!'')],
                                invoked = [(''reportgenerator'', args)], self_after = self\<rparr>
                          else \<lparr>returned = Inr rc,
                                logged = [(CRITICAL, ''reportgenerator returned error return value: '' @ str_int rc)],
                                invoked = [(''reportgenerator'', args)], self_after = self\<rparr>)))"

section \<open>The filter expression as the specification words it\<close>

text \<open>
  The specification describes the filter expression as tokens joined with a separator.
  \<open>join\<close> is Python's \<^verbatim>\<open>sep.join(xs)\<close>: the separator stands between neighbours only.
\<close>

fun join :: "string \<Rightarrow> string list \<Rightarrow> string" where
  "join sep [] = ''''"
| "join sep [x] = x"
| "join sep (x # y # ys) = x @ sep @ join sep (y # ys)"

section \<open>Auxiliary facts\<close>

subsection \<open>Joining and the loops\<close>

lemma join_Cons: "join sep (x # xs) = x @ concat (map ((@) sep) xs)"
  by (induction xs arbitrary: x) auto

lemma join_starts_with_first:
  "xs \<noteq> [] \<Longrightarrow> \<exists>r. join sep xs = hd xs @ r"
  by (cases xs) (simp_all add: join_Cons)

lemma join_ends_with_last:
  "xs \<noteq> [] \<Longrightarrow> \<exists>r. join sep xs = r @ last xs"
proof (induction sep xs rule: join.induct)
  case (1 sep)
  then show ?case by simp
next
  case (2 sep x)
  show ?case by simp
next
  case (3 sep x y ys)
  then obtain r where "join sep (y # ys) = r @ last (y # ys)" by auto
  then have "join sep (x # y # ys) = (x @ sep @ r) @ last (x # y # ys)" by simp
  then show ?case by blast
qed

lemma append_filters_nonempty:
  "acc \<noteq> [] \<Longrightarrow>
   append_filters sign ps acc = acc @ concat (map (\<lambda>p. '';'' @ sign @ p) ps)"
  by (induction ps arbitrary: acc) auto

lemma build_file_filters_join:
  "build_file_filters excludes includes =
     join '';'' (map ((@) ''-'') excludes @ map ((@) ''+'') includes)"
proof (cases excludes)
  case Nil
  then show ?thesis
    by (cases "includes")
      (simp_all add: build_file_filters_def join_Cons append_filters_nonempty comp_def)
next
  case (Cons e es)
  then show ?thesis
    by (simp add: build_file_filters_def join_Cons append_filters_nonempty comp_def)
qed

subsection \<open>The cases of Go\<close>

lemma invoked_Go:
  "invoked (Go RunCmd self) =
     (case coverage_files self of None \<Rightarrow> []
      | Some cf \<Rightarrow> (case output_dir self of None \<Rightarrow> []
         | Some od \<Rightarrow> (case report_type self of None \<Rightarrow> []
            | Some rt \<Rightarrow> [(''reportgenerator'', build_args cf od rt (Go_file_filters self))])))"
  by (simp add: Go_def Go_file_filters_def Let_def split: option.splits)

lemma build_args_eq:
  "build_args cf od rt ff =
     '' -reports:'' @ cf @ '' -targetdir:'' @ od @ '' -reporttypes:'' @ rt @ '' -filefilters:'' @ ff"
  by (simp add: build_args_def Let_def)

lemma invoked_Go_configured:
  "coverage_files self = Some cf \<and> output_dir self = Some od \<and> report_type self = Some rt \<Longrightarrow>
   invoked (Go RunCmd self) =
     [(''reportgenerator'',
       '' -reports:'' @ cf @ '' -targetdir:'' @ od @ '' -reporttypes:'' @ rt
         @ '' -filefilters:'' @ Go_file_filters self)]"
  by (simp add: invoked_Go build_args_eq)

lemma Go_file_filters_baseline:
  "Go_file_filters self =
     ''-*AutoGen.c;-*UnitTest*'' @
       concat (map ((@) '';'') (map ((@) ''-'') (GetCoverageExclusionList (PlatformSettings self))
                  @ map ((@) ''+'') (GetCoverageInclusionList (PlatformSettings self))))"
  by (simp add: Go_file_filters_def Go_excludes_def Go_includes_def build_file_filters_join join_Cons)

lemma Go_unset:
  "coverage_files self = None \<Longrightarrow>
   Go RunCmd self =
     \<lparr>returned = Inr (- 1),
      logged = [(ERROR, ''Path to coverage file is required!\<newline>'')],
      invoked = [], self_after = self\<rparr>"
  by (simp add: Go_def)

lemma Go_configured:
  "coverage_files self = Some cf \<Longrightarrow> output_dir self = Some od \<Longrightarrow> report_type self = Some rt \<Longrightarrow>
   Go RunCmd self =
     (let args = build_args cf od rt (Go_file_filters self);
          rc = RunCmd ''reportgenerator'' args
      in if rc = 0
         then \<lparr>returned = Inr 0,
               logged = [(DEBUG, ''reportgenerator command returned successfully!'')],
               invoked = [(''reportgenerator'', args)], self_after = self\<rparr>
         else \<lparr>returned = Inr rc,
               logged = [(CRITICAL, ''reportgenerator returned error return value: '' @ str_int rc)],
               invoked = [(''reportgenerator'', args)], self_after = self\<rparr>)"
  by (simp add: Go_def Go_file_filters_def Let_def)

lemma Go_TypeError:
  "coverage_files self = Some cf \<Longrightarrow> output_dir self = None \<or> report_type self = None \<Longrightarrow>
   Go RunCmd self = \<lparr>returned = Inl TypeError, logged = [], invoked = [], self_after = self\<rparr>"
  by (auto simp: Go_def Let_def split: option.splits)

lemma self_after_Go: "self_after (Go RunCmd self) = self"
  by (simp add: Go_def Let_def split: option.splits)

lemma returned_Go_cases:
  "returned (Go RunCmd self) = Inr v \<Longrightarrow>
     (coverage_files self = None \<and> v = - 1 \<and> invoked (Go RunCmd self) = [])
   \<or> (\<exists>args. invoked (Go RunCmd self) = [(''reportgenerator'', args)]
          \<and> v = RunCmd ''reportgenerator'' args)"
  by (auto simp: Go_def Let_def split: option.splits if_splits)

lemma no_error_logged_when_set:
  "coverage_files self = Some cf \<Longrightarrow> (ERROR, msg) \<notin> set (logged (Go RunCmd self))"
  by (cases "output_dir self"; cases "report_type self") (simp_all add: Go_def Let_def)

subsection \<open>Retrieval\<close>

lemma Retrieve_Inr:
  "RetrieveCommandLineOptions super_Retrieve args self0 = Inr self1 \<Longrightarrow>
   \<exists>cf rt od b.
     args ''coverage_files'' = Some cf \<and> args ''report_type'' = Some rt
     \<and> args ''output_dir'' = Some od
     \<and> super_Retrieve args (inherited self0) = Inr b
     \<and> self1 = self0\<lparr>coverage_files := cf, report_type := rt, output_dir := od,
           inherited := b,
           assigned := assigned self0 @ [''coverage_files'', ''report_type'', ''output_dir'']\<rparr>"
  by (auto simp: RetrieveCommandLineOptions_def getattr_ns_def set_coverage_files_def
      set_report_type_def set_output_dir_def Let_def split: option.splits sum.splits)

subsection \<open>Defaults, option selection and stored options of the parser\<close>

lemma fold_add_default_keeps:
  "ns d = Some v \<Longrightarrow> fold add_default ps ns d = Some v"
proof (induction ps arbitrary: ns)
  case Nil
  then show ?case by simp
next
  case (Cons a ps)
  have "add_default a ns d = Some v"
    using Cons.prems by (cases "dest a = d") (auto simp: add_default_def split: option.splits)
  then show ?case
    using Cons.IH by simp
qed

lemma fold_add_default_first:
  "ns d = None \<Longrightarrow>
   fold add_default ps ns d = map_option default_value (find (\<lambda>a. dest a = d) ps)"
proof (induction ps arbitrary: ns)
  case Nil
  then show ?case by simp
next
  case (Cons a ps)
  show ?case
  proof (cases "dest a = d")
    case True
    with Cons.prems have "add_default a ns d = Some (default_value a)"
      by (simp add: add_default_def)
    then show ?thesis
      using True by (simp add: fold_add_default_keeps)
  next
    case False
    with Cons.prems have "add_default a ns d = None"
      by (simp add: add_default_def split: option.splits)
    then show ?thesis
      using False Cons.IH by simp
  qed
qed

lemma store_options_str:
  "store_options p argv ns = Inr ns' \<Longrightarrow> ns d = Some (Some v) \<Longrightarrow>
   \<exists>v'. ns' d = Some (Some v')"
proof (induction p argv ns arbitrary: v rule: store_options.induct)
  case (1 parserObj ns)
  then show ?case by simp
next
  case (2 parserObj ov rest ns)
  show ?case
  proof (cases "fst ov = ''--''")
    case True
    with "2.prems" show ?thesis by simp
  next
    case False
    show ?thesis
    proof (cases "parse_optional parserObj (fst ov)")
      case (Inl e)
      with False "2.prems" show ?thesis by simp
    next
      case (Inr sel)
      show ?thesis
      proof (cases sel)
        case None
        with False Inr "2.prems" "2.IH"(1) show ?thesis by simp
      next
        case (Some ae)
        obtain a explicit_arg where ae: "ae = (a, explicit_arg)" by (cases ae)
        let ?ns = "ns(dest a \<mapsto> Some (case explicit_arg of None \<Rightarrow> snd ov | Some v \<Rightarrow> v))"
        have run: "store_options parserObj rest ?ns = Inr ns'"
          using False Inr Some ae "2.prems"(1) by simp
        have "\<exists>w. ?ns d = Some (Some w)"
          using "2.prems"(2) by simp
        then obtain w where "?ns d = Some (Some w)" ..
        from "2.IH"(2) [OF False Inr Some ae [symmetric] run this]
        show ?thesis .
      qed
    qed
  qed
qed

lemma store_options_other:
  "store_options p argv ns = Inr ns' \<Longrightarrow>
   \<forall>ov \<in> set argv. \<forall>a e. parse_optional p (fst ov) = Inr (Some (a, e)) \<longrightarrow> dest a \<noteq> d \<Longrightarrow>
   ns' d = ns d"
proof (induction p argv ns rule: store_options.induct)
  case (1 parserObj ns)
  then show ?case by simp
next
  case (2 parserObj ov rest ns)
  from "2.prems"(2) have here: "\<forall>a e. parse_optional parserObj (fst ov) = Inr (Some (a, e)) \<longrightarrow> dest a \<noteq> d"
    and later: "\<forall>ov \<in> set rest. \<forall>a e. parse_optional parserObj (fst ov) = Inr (Some (a, e)) \<longrightarrow> dest a \<noteq> d"
    by simp_all
  show ?case
  proof (cases "fst ov = ''--''")
    case True
    with "2.prems" show ?thesis by simp
  next
    case False
    show ?thesis
    proof (cases "parse_optional parserObj (fst ov)")
      case (Inl e)
      with False "2.prems" show ?thesis by simp
    next
      case (Inr sel)
      show ?thesis
      proof (cases sel)
        case None
        have "store_options parserObj rest ns = Inr ns'"
          using False Inr None "2.prems"(1) by simp
        from "2.IH"(1) [OF False Inr None this later]
        show ?thesis .
      next
        case (Some ae)
        obtain a explicit_arg where ae: "ae = (a, explicit_arg)" by (cases ae)
        let ?ns = "ns(dest a \<mapsto> Some (case explicit_arg of None \<Rightarrow> snd ov | Some v \<Rightarrow> v))"
        have run: "store_options parserObj rest ?ns = Inr ns'"
          using False Inr Some ae "2.prems"(1) by simp
        have "dest a \<noteq> d"
          using here Inr Some ae by simp
        then have same: "?ns d = ns d" by simp
        from "2.IH"(2) [OF False Inr Some ae [symmetric] run later]
        have "ns' d = ?ns d" .
        with same show ?thesis by simp
      qed
    qed
  qed
qed

lemma startswith_prefix: "startswith s pre \<longleftrightarrow> prefix pre s"
proof
  assume "startswith s pre"
  then have "s = pre @ drop (length pre) s"
    by (metis append_take_drop_id startswith_def)
  then show "prefix pre s" by (rule prefixI)
next
  assume "prefix pre s"
  then show "startswith s pre"
    by (auto simp: startswith_def elim: prefixE)
qed

lemma fst_partition_eq: "fst (partition_eq s) = takeWhile (\<lambda>c. c \<noteq> CHR ''='') s"
proof (cases "CHR ''='' \<in> set s")
  case True
  then show ?thesis by (simp add: partition_eq_def)
next
  case False
  then have all: "takeWhile (\<lambda>c. c \<noteq> CHR ''='') s = s"
    by (intro takeWhile_eq_all_conv [THEN iffD2]) auto
  from False have "fst (partition_eq s) = s"
    by (simp add: partition_eq_def)
  also have "s = takeWhile (\<lambda>c. c \<noteq> CHR ''='') s"
    by (rule all [symmetric])
  finally show ?thesis .
qed

lemma startswith_partition:
  "startswith o_s s \<Longrightarrow> startswith o_s (fst (partition_eq s))"
  unfolding startswith_prefix fst_partition_eq
  using takeWhile_is_prefix prefix_order.trans by blast

lemma get_option_tuples_sound:
  assumes "(a, e) \<in> set (get_option_tuples p s)"
  shows "a \<in> set (actions p)
    \<and> (startswith (option_string a) (fst (partition_eq s)) \<or> option_string a = take 2 s)"
proof (cases s)
  case Nil
  with assms show ?thesis by (simp add: get_option_tuples_def)
next
  case outer: (Cons c0 t)
  show ?thesis
  proof (cases t)
    case Nil
    with outer assms show ?thesis by (simp add: get_option_tuples_def)
  next
    case (Cons c1 u)
    show ?thesis
    proof (cases "c1 = CHR ''-''")
      case True
      with assms outer Cons show ?thesis
        by (auto simp: get_option_tuples_def split: if_splits)
    next
      case False
      with assms outer Cons
      have "a \<in> set (actions p)" "option_string a = take 2 s \<or> startswith (option_string a) s"
        by (auto simp: get_option_tuples_def split: if_splits)
      then show ?thesis
        using startswith_partition by blast
    qed
  qed
qed

lemma parse_optional_sound:
  assumes "parse_optional p s = Inr (Some (a, e))"
  shows "a \<in> set (actions p)
    \<and> (startswith (option_string a) (fst (partition_eq s)) \<or> option_string a = take 2 s)"
proof (cases "find (\<lambda>a. option_string a = s) (actions p)")
  case (Some b)
  with assms have "b = a"
    by (simp add: parse_optional_def split: if_splits)
  with Some have "a \<in> set (actions p)" "option_string a = s"
    by (auto simp: find_Some_iff)
  then show ?thesis
    using startswith_partition [of s s] by (simp add: startswith_def)
next
  case None
  show ?thesis
  proof (cases "find (\<lambda>a. option_string a = fst (partition_eq s)) (actions p)")
    case inner: None
    with None assms have "(a, e) \<in> set (get_option_tuples p s)"
      by (auto simp: parse_optional_def split: if_splits list.splits option.splits)
    then show ?thesis by (rule get_option_tuples_sound)
  next
    case inner: (Some b)
    show ?thesis
    proof (cases "snd (partition_eq s)")
      case no_eq: None
      with None inner assms have "(a, e) \<in> set (get_option_tuples p s)"
        by (auto simp: parse_optional_def split: if_splits list.splits option.splits)
      then show ?thesis by (rule get_option_tuples_sound)
    next
      case (Some x)
      with None inner assms have "b = a"
        by (auto simp: parse_optional_def split: if_splits)
      with inner have "a \<in> set (actions p)" "option_string a = fst (partition_eq s)"
        by (auto simp: find_Some_iff)
      then show ?thesis
        by (simp add: startswith_def)
    qed
  qed
qed

lemma find_append_first:
  "\<forall>a \<in> set xs. \<not> P a \<Longrightarrow> P y \<Longrightarrow> find P (xs @ y # ys) = Some y"
  by (induction xs) auto

lemma actions_AddCommandLineOptions:
  "actions (AddCommandLineOptions (\<lambda>p. p\<lparr>actions := actions p @ base_arguments\<rparr>) parserObj) =
     actions parserObj @
       \<lparr>option_string = ''--coverage-files'', dest = ''coverage_files'',
        default_value = Some ''Build/**/coverage.xml'',
        help_text = ''Provide the paths to the coverage files''\<rparr> #
       ([\<lparr>option_string = ''--report-type'', dest = ''report_type'',
          default_value = Some ''Cobertura'',
          help_text = ''Provide the type of report desired such as Cobertura or Html''\<rparr>,
         \<lparr>option_string = ''--output-dir'', dest = ''output_dir'',
          default_value = Some ''Build/Coverage'',
          help_text = ''Provide directory where resulting files are placed''\<rparr>] @ base_arguments)"
  by (simp add: AddCommandLineOptions_def add_argument_def)

lemma default_coverage_files:
  assumes "\<forall>a \<in> set (actions parserObj). dest a \<noteq> ''coverage_files''"
  shows "fold add_default
           (actions (AddCommandLineOptions (\<lambda>p. p\<lparr>actions := actions p @ base_arguments\<rparr>) parserObj))
           Map.empty ''coverage_files'' = Some (Some ''Build/**/coverage.xml'')"
proof -
  let ?cfa = "\<lparr>option_string = ''--coverage-files'', dest = ''coverage_files'',
        default_value = Some ''Build/**/coverage.xml'',
        help_text = ''Provide the paths to the coverage files''\<rparr>"
  have "find (\<lambda>a. dest a = ''coverage_files'')
          (actions (AddCommandLineOptions (\<lambda>p. p\<lparr>actions := actions p @ base_arguments\<rparr>) parserObj))
        = Some ?cfa"
    unfolding actions_AddCommandLineOptions
    using assms by (intro find_append_first) simp_all
  then show ?thesis
    by (simp add: fold_add_default_first)
qed

lemma parse_args_coverage_files_str:
  assumes "\<forall>a \<in> set (actions parserObj). dest a \<noteq> ''coverage_files''"
    and "parse_args (AddCommandLineOptions (\<lambda>p. p\<lparr>actions := actions p @ base_arguments\<rparr>) parserObj) argv
           = Inr args"
  shows "\<exists>v. args ''coverage_files'' = Some (Some v)"
  using assms(2) unfolding parse_args_def
  by (rule store_options_str) (rule default_coverage_files [OF assms(1)])

lemma coverage_files_option_selected:
  assumes fresh: "\<forall>a \<in> set (actions parserObj). dest a \<noteq> ''coverage_files''"
    and base: "\<forall>a \<in> set base_arguments. dest a \<noteq> ''coverage_files''"
    and sel: "parse_optional
                (AddCommandLineOptions (\<lambda>p. p\<lparr>actions := actions p @ base_arguments\<rparr>) parserObj) s
              = Inr (Some (a, e))"
    and d: "dest a = ''coverage_files''"
  shows "startswith ''--coverage-files'' (fst (partition_eq s))"
proof -
  from parse_optional_sound [OF sel]
  have mem: "a \<in> set (actions (AddCommandLineOptions
                (\<lambda>p. p\<lparr>actions := actions p @ base_arguments\<rparr>) parserObj))"
    and how: "startswith (option_string a) (fst (partition_eq s)) \<or> option_string a = take 2 s"
    by simp_all
  from mem d fresh base have opt: "option_string a = ''--coverage-files''"
    unfolding actions_AddCommandLineOptions by auto
  have "''--coverage-files'' \<noteq> take 2 s"
  proof
    assume eq: "''--coverage-files'' = take 2 s"
    have "length (take 2 s) \<le> 2" by simp
    with eq [symmetric] show False by simp
  qed
  with how opt show ?thesis by simp
qed

section \<open>The claims\<close>

text \<open>
  Claim C1. For any exclusion and inclusion lists, the two loops of \<^verbatim>\<open>Go\<close> build exactly
  the tokens \<^verbatim>\<open>-pattern\<close> (exclusions, in list order) followed by the tokens
  \<^verbatim>\<open>+pattern\<close> (inclusions, in list order), joined with \<^verbatim>\<open>;\<close>. When there is a
  token at all, the expression starts with the first token and ends with the last one, so
  no separator leads or trails. When the three configuration attributes are strings,
  \<^verbatim>\<open>Go\<close> runs the external tool once, and the filter expression after
  \<^verbatim>\<open>-filefilters:\<close> in its argument string is this join over the exclusion and inclusion
  lists that \<^verbatim>\<open>Go\<close> built; \<^verbatim>\<open>Go\<close> runs nothing else.
\<close>

theorem filter_expression_joined:
  "build_file_filters excludes includes =
     join '';'' (map ((@) ''-'') excludes @ map ((@) ''+'') includes)
   \<and> (excludes @ includes \<noteq> [] \<longrightarrow>
        (\<exists>r. build_file_filters excludes includes
               = hd (map ((@) ''-'') excludes @ map ((@) ''+'') includes) @ r)
      \<and> (\<exists>r. build_file_filters excludes includes
               = r @ last (map ((@) ''-'') excludes @ map ((@) ''+'') includes)))
   \<and> (coverage_files self = Some cf \<and> output_dir self = Some od \<and> report_type self = Some rt \<longrightarrow>
        invoked (Go RunCmd self) =
          [(''reportgenerator'',
            '' -reports:'' @ cf @ '' -targetdir:'' @ od @ '' -reporttypes:'' @ rt
              @ '' -filefilters:''
              @ join '';'' (map ((@) ''-'') (Go_excludes self) @ map ((@) ''+'') (Go_includes self)))])
   \<and> (invoked (Go RunCmd self) = []
      \<or> (\<exists>cf od rt. invoked (Go RunCmd self) =
            [(''reportgenerator'',
              build_args cf od rt
                (join '';'' (map ((@) ''-'') (Go_excludes self) @ map ((@) ''+'') (Go_includes self))))]))"
proof -
  let ?tokens = "map ((@) ''-'') excludes @ map ((@) ''+'') includes"
  have eq: "build_file_filters excludes includes = join '';'' ?tokens"
    by (rule build_file_filters_join)
  have ends: "excludes @ includes \<noteq> [] \<longrightarrow>
        (\<exists>r. build_file_filters excludes includes = hd ?tokens @ r)
      \<and> (\<exists>r. build_file_filters excludes includes = r @ last ?tokens)"
  proof
    assume "excludes @ includes \<noteq> []"
    then have ne: "?tokens \<noteq> []" by simp
    show "(\<exists>r. build_file_filters excludes includes = hd ?tokens @ r)
      \<and> (\<exists>r. build_file_filters excludes includes = r @ last ?tokens)"
      unfolding eq
      using join_starts_with_first [OF ne] join_ends_with_last [OF ne] by blast
  qed
  have passed: "coverage_files self = Some cf \<and> output_dir self = Some od \<and> report_type self = Some rt \<longrightarrow>
        invoked (Go RunCmd self) =
          [(''reportgenerator'',
            '' -reports:'' @ cf @ '' -targetdir:'' @ od @ '' -reporttypes:'' @ rt
              @ '' -filefilters:''
              @ join '';'' (map ((@) ''-'') (Go_excludes self) @ map ((@) ''+'') (Go_includes self)))]"
  proof
    assume "coverage_files self = Some cf \<and> output_dir self = Some od \<and> report_type self = Some rt"
    from invoked_Go_configured [OF this]
    show "invoked (Go RunCmd self) =
          [(''reportgenerator'',
            '' -reports:'' @ cf @ '' -targetdir:'' @ od @ '' -reporttypes:'' @ rt
              @ '' -filefilters:''
              @ join '';'' (map ((@) ''-'') (Go_excludes self) @ map ((@) ''+'') (Go_includes self)))]"
      by (simp only: Go_file_filters_def build_file_filters_join)
  qed
  have run: "invoked (Go RunCmd self) = []
      \<or> (\<exists>cf od rt. invoked (Go RunCmd self) =
            [(''reportgenerator'',
              build_args cf od rt
                (join '';'' (map ((@) ''-'') (Go_excludes self) @ map ((@) ''+'') (Go_includes self))))])"
    by (auto simp: invoked_Go Go_file_filters_def build_file_filters_join split: option.splits)
  from eq ends passed run show ?thesis by blast
qed

text \<open>The theorem at a concrete input.\<close>

theorem filter_expression_joined_witness:
  "build_file_filters [''*AutoGen.c'', ''*UnitTest*'', ''Test/*''] [''Core/*.c'', ''Lib.c'']
     = ''-*AutoGen.c;-*UnitTest*;-Test/*;+Core/*.c;+Lib.c''
   \<and> invoked (Go (\<lambda>cmd cmdline. 0)
       \<lparr>coverage_files = Some ''c.xml'', report_type = Some ''Html'', output_dir = Some ''out'',
        PlatformSettings = \<lparr>GetCoverageExclusionList = [''Test/*''],
                             GetCoverageInclusionList = [''Core/*.c'', ''Lib.c'']\<rparr>,
        inherited = (), assigned = []\<rparr>)
     = [(''reportgenerator'',
         '' -reports:c.xml -targetdir:out -reporttypes:Html -filefilters:-*AutoGen.c;-*UnitTest*;-Test/*;+Core/*.c;+Lib.c'')]"
proof -
  let ?excludes = "[''*AutoGen.c'', ''*UnitTest*'', ''Test/*'']"
  let ?includes = "[''Core/*.c'', ''Lib.c'']"
  let ?inst = "\<lparr>coverage_files = Some ''c.xml'', report_type = Some ''Html'', output_dir = Some ''out'',
        PlatformSettings = \<lparr>GetCoverageExclusionList = [''Test/*''],
                             GetCoverageInclusionList = [''Core/*.c'', ''Lib.c'']\<rparr>,
        inherited = (), assigned = []\<rparr>"
  note at_inst = filter_expression_joined [of ?excludes "?includes" ?inst
      "''c.xml''" "''out''" "''Html''" "\<lambda>cmd cmdline. 0"]
  have conf: "coverage_files ?inst = Some ''c.xml'' \<and> output_dir ?inst = Some ''out''
      \<and> report_type ?inst = Some ''Html''"
    by simp
  from at_inst have "build_file_filters ?excludes ?includes
      = join '';'' (map ((@) ''-'') ?excludes @ map ((@) ''+'') ?includes)"
    by (rule conjunct1)
  then have built: "build_file_filters ?excludes ?includes
      = ''-*AutoGen.c;-*UnitTest*;-Test/*;+Core/*.c;+Lib.c''"
    by simp
  from at_inst [THEN conjunct2, THEN conjunct2, THEN conjunct1, THEN mp, OF conf]
  have passed: "invoked (Go (\<lambda>cmd cmdline. 0) ?inst) =
      [(''reportgenerator'',
         '' -reports:c.xml -targetdir:out -reporttypes:Html -filefilters:-*AutoGen.c;-*UnitTest*;-Test/*;+Core/*.c;+Lib.c'')]"
    by (simp add: Go_excludes_def Go_includes_def)
  from built passed show ?thesis by (rule conjI)
qed

text \<open>
  Claim C2. When the three configuration attributes are strings, \<^verbatim>\<open>Go\<close> runs
  \<^verbatim>\<open>reportgenerator\<close> once; with \<open>rc\<close> the tool's exit code, \<^verbatim>\<open>Go\<close> returns 0 when
  \<open>rc = 0\<close> and returns \<open>rc\<close> itself otherwise. Every integer \<^verbatim>\<open>Go\<close> returns is
  either \<open>-1\<close> for an unset coverage-file glob (the tool not run), or the exit code of
  the one tool run.
\<close>

theorem Go_return_value:
  "(coverage_files self = Some cf \<and> output_dir self = Some od \<and> report_type self = Some rt
      \<and> rc = RunCmd ''reportgenerator'' (build_args cf od rt (Go_file_filters self)) \<longrightarrow>
        invoked (Go RunCmd self) = [(''reportgenerator'', build_args cf od rt (Go_file_filters self))]
      \<and> (rc = 0 \<longrightarrow> returned (Go RunCmd self) = Inr 0)
      \<and> (rc \<noteq> 0 \<longrightarrow> returned (Go RunCmd self) = Inr rc))
   \<and> (\<forall>v. returned (Go RunCmd self) = Inr v \<longrightarrow>
          (coverage_files self = None \<and> v = - 1 \<and> invoked (Go RunCmd self) = [])
        \<or> (\<exists>args. invoked (Go RunCmd self) = [(''reportgenerator'', args)]
               \<and> v = RunCmd ''reportgenerator'' args))"
proof (intro conjI impI allI)
  assume a: "coverage_files self = Some cf \<and> output_dir self = Some od \<and> report_type self = Some rt
      \<and> rc = RunCmd ''reportgenerator'' (build_args cf od rt (Go_file_filters self))"
  then show "invoked (Go RunCmd self) = [(''reportgenerator'', build_args cf od rt (Go_file_filters self))]"
    by (simp add: invoked_Go)
  { assume "rc = 0"
    with a show "returned (Go RunCmd self) = Inr 0"
      by (simp add: Go_configured [of self cf od rt] Let_def) }
  { assume "rc \<noteq> 0"
    with a show "returned (Go RunCmd self) = Inr rc"
      by (simp add: Go_configured [of self cf od rt] Let_def) }
next
  fix v
  assume "returned (Go RunCmd self) = Inr v"
  then show "(coverage_files self = None \<and> v = - 1 \<and> invoked (Go RunCmd self) = [])
        \<or> (\<exists>args. invoked (Go RunCmd self) = [(''reportgenerator'', args)]
               \<and> v = RunCmd ''reportgenerator'' args)"
    by (rule returned_Go_cases)
qed

text \<open>The theorem at a concrete input.\<close>

theorem Go_return_value_witness:
  "returned (Go (\<lambda>cmd args. if cmd = ''reportgenerator'' then 3 else 0)
     \<lparr>coverage_files = Some ''c.xml'', report_type = Some ''Html'', output_dir = Some ''out'',
      PlatformSettings = default_CoverageSettingsManager, inherited = (), assigned = []\<rparr>) = Inr 3
   \<and> returned (Go (\<lambda>cmd args. 0)
     \<lparr>coverage_files = Some ''c.xml'', report_type = Some ''Html'', output_dir = Some ''out'',
      PlatformSettings = default_CoverageSettingsManager, inherited = (), assigned = []\<rparr>) = Inr 0"
  using
    Go_return_value [of
      "\<lparr>coverage_files = Some ''c.xml'', report_type = Some ''Html'', output_dir = Some ''out'',
        PlatformSettings = default_CoverageSettingsManager, inherited = (), assigned = []\<rparr>"
      "''c.xml''" "''out''" "''Html''" 3 "\<lambda>cmd args. if cmd = ''reportgenerator'' then 3 else 0"]
    Go_return_value [of
      "\<lparr>coverage_files = Some ''c.xml'', report_type = Some ''Html'', output_dir = Some ''out'',
        PlatformSettings = default_CoverageSettingsManager, inherited = (), assigned = []\<rparr>"
      "''c.xml''" "''out''" "''Html''" 0 "\<lambda>cmd args. 0"]
  by simp

text \<open>
  Claim C3. When \<^verbatim>\<open>self.coverage_files\<close> is \<^verbatim>\<open>None\<close>, \<^verbatim>\<open>Go\<close> logs one error record,
  returns \<open>-1\<close> and runs no external command.
\<close>

theorem Go_missing_glob:
  "coverage_files self = None \<Longrightarrow>
   returned (Go RunCmd self) = Inr (- 1)
   \<and> logged (Go RunCmd self) = [(ERROR, ''Path to coverage file is required!\<newline>'')]
   \<and> invoked (Go RunCmd self) = []"
  by (simp add: Go_unset)

text \<open>The theorem at a concrete input.\<close>

theorem Go_missing_glob_witness:
  "returned (Go (\<lambda>cmd args. 0)
     \<lparr>coverage_files = None, report_type = Some ''Cobertura'', output_dir = Some ''Build/Coverage'',
      PlatformSettings = default_CoverageSettingsManager, inherited = (), assigned = []\<rparr>) = Inr (- 1)
   \<and> invoked (Go (\<lambda>cmd args. 0)
     \<lparr>coverage_files = None, report_type = Some ''Cobertura'', output_dir = Some ''Build/Coverage'',
      PlatformSettings = default_CoverageSettingsManager, inherited = (), assigned = []\<rparr>) = []"
  using Go_missing_glob [of
      "\<lparr>coverage_files = None, report_type = Some ''Cobertura'', output_dir = Some ''Build/Coverage'',
        PlatformSettings = default_CoverageSettingsManager, inherited = (), assigned = []\<rparr>"
      "\<lambda>cmd args. 0"]
  by simp

text \<open>
  Claim C4. The exclusion list of \<^verbatim>\<open>Go\<close> is the baseline \<^verbatim>\<open>*AutoGen.c\<close>,
  \<^verbatim>\<open>*UnitTest*\<close> followed by the platform's exclusion list; the inclusion list is the
  platform's inclusion list and nothing else. These are the lists \<^verbatim>\<open>Go\<close> uses: when the
  three configuration attributes are strings, the one command \<^verbatim>\<open>Go\<close> runs carries the
  filter expression that the two loops build from the baseline followed by the platform's
  exclusions, and from the platform's inclusions; \<^verbatim>\<open>Go\<close> runs nothing else.
\<close>

theorem Go_pattern_lists:
  "Go_excludes self = ''*AutoGen.c'' # ''*UnitTest*'' # GetCoverageExclusionList (PlatformSettings self)
   \<and> Go_includes self = GetCoverageInclusionList (PlatformSettings self)
   \<and> (coverage_files self = Some cf \<and> output_dir self = Some od \<and> report_type self = Some rt \<longrightarrow>
        invoked (Go RunCmd self) =
          [(''reportgenerator'',
            '' -reports:'' @ cf @ '' -targetdir:'' @ od @ '' -reporttypes:'' @ rt
              @ '' -filefilters:''
              @ build_file_filters
                  (''*AutoGen.c'' # ''*UnitTest*'' # GetCoverageExclusionList (PlatformSettings self))
                  (GetCoverageInclusionList (PlatformSettings self)))])
   \<and> (invoked (Go RunCmd self) = []
      \<or> (\<exists>cf od rt. invoked (Go RunCmd self) =
            [(''reportgenerator'',
              build_args cf od rt
                (build_file_filters
                   (''*AutoGen.c'' # ''*UnitTest*'' # GetCoverageExclusionList (PlatformSettings self))
                   (GetCoverageInclusionList (PlatformSettings self))))]))"
proof -
  have ex: "Go_excludes self
      = ''*AutoGen.c'' # ''*UnitTest*'' # GetCoverageExclusionList (PlatformSettings self)"
    by (simp add: Go_excludes_def)
  have inc: "Go_includes self = GetCoverageInclusionList (PlatformSettings self)"
    by (simp add: Go_includes_def)
  have used: "coverage_files self = Some cf \<and> output_dir self = Some od \<and> report_type self = Some rt \<longrightarrow>
        invoked (Go RunCmd self) =
          [(''reportgenerator'',
            '' -reports:'' @ cf @ '' -targetdir:'' @ od @ '' -reporttypes:'' @ rt
              @ '' -filefilters:''
              @ build_file_filters
                  (''*AutoGen.c'' # ''*UnitTest*'' # GetCoverageExclusionList (PlatformSettings self))
                  (GetCoverageInclusionList (PlatformSettings self)))]"
  proof
    assume "coverage_files self = Some cf \<and> output_dir self = Some od \<and> report_type self = Some rt"
    from invoked_Go_configured [OF this]
    show "invoked (Go RunCmd self) =
          [(''reportgenerator'',
            '' -reports:'' @ cf @ '' -targetdir:'' @ od @ '' -reporttypes:'' @ rt
              @ '' -filefilters:''
              @ build_file_filters
                  (''*AutoGen.c'' # ''*UnitTest*'' # GetCoverageExclusionList (PlatformSettings self))
                  (GetCoverageInclusionList (PlatformSettings self)))]"
      by (simp only: Go_file_filters_def ex inc)
  qed
  have run: "invoked (Go RunCmd self) = []
      \<or> (\<exists>cf od rt. invoked (Go RunCmd self) =
            [(''reportgenerator'',
              build_args cf od rt
                (build_file_filters
                   (''*AutoGen.c'' # ''*UnitTest*'' # GetCoverageExclusionList (PlatformSettings self))
                   (GetCoverageInclusionList (PlatformSettings self))))])"
    by (auto simp: invoked_Go Go_file_filters_def Go_excludes_def Go_includes_def split: option.splits)
  from ex inc used run show ?thesis by blast
qed

text \<open>The theorem at a concrete input.\<close>

theorem Go_pattern_lists_witness:
  "Go_excludes
     \<lparr>coverage_files = Some ''c.xml'', report_type = Some ''Html'', output_dir = Some ''out'',
      PlatformSettings = \<lparr>GetCoverageExclusionList = [''Test/*'', ''Mock*''], GetCoverageInclusionList = [''Core/*'']\<rparr>,
      inherited = (), assigned = []\<rparr> = [''*AutoGen.c'', ''*UnitTest*'', ''Test/*'', ''Mock*'']
   \<and> Go_includes
     \<lparr>coverage_files = Some ''c.xml'', report_type = Some ''Html'', output_dir = Some ''out'',
      PlatformSettings = \<lparr>GetCoverageExclusionList = [''Test/*'', ''Mock*''], GetCoverageInclusionList = [''Core/*'']\<rparr>,
      inherited = (), assigned = []\<rparr> = [''Core/*'']
   \<and> invoked (Go (\<lambda>cmd cmdline. 5)
     \<lparr>coverage_files = Some ''c.xml'', report_type = Some ''Html'', output_dir = Some ''out'',
      PlatformSettings = \<lparr>GetCoverageExclusionList = [''Test/*'', ''Mock*''], GetCoverageInclusionList = [''Core/*'']\<rparr>,
      inherited = (), assigned = []\<rparr>)
     = [(''reportgenerator'',
         '' -reports:c.xml -targetdir:out -reporttypes:Html -filefilters:-*AutoGen.c;-*UnitTest*;-Test/*;-Mock*;+Core/*'')]"
proof -
  let ?inst = "\<lparr>coverage_files = Some ''c.xml'', report_type = Some ''Html'', output_dir = Some ''out'',
      PlatformSettings = \<lparr>GetCoverageExclusionList = [''Test/*'', ''Mock*''], GetCoverageInclusionList = [''Core/*'']\<rparr>,
      inherited = (), assigned = []\<rparr>"
  note at_inst = Go_pattern_lists [where self = ?inst and cf = "''c.xml''" and od = "''out''"
      and rt = "''Html''" and RunCmd = "\<lambda>cmd cmdline. 5"]
  have conf: "coverage_files ?inst = Some ''c.xml'' \<and> output_dir ?inst = Some ''out''
      \<and> report_type ?inst = Some ''Html''"
    by simp
  from at_inst [THEN conjunct1]
  have ex: "Go_excludes ?inst = [''*AutoGen.c'', ''*UnitTest*'', ''Test/*'', ''Mock*'']"
    by simp
  from at_inst [THEN conjunct2, THEN conjunct1]
  have inc: "Go_includes ?inst = [''Core/*'']"
    by simp
  from at_inst [THEN conjunct2, THEN conjunct2, THEN conjunct1, THEN mp, OF conf]
  have used: "invoked (Go (\<lambda>cmd cmdline. 5) ?inst)
     = [(''reportgenerator'',
         '' -reports:c.xml -targetdir:out -reporttypes:Html -filefilters:-*AutoGen.c;-*UnitTest*;-Test/*;-Mock*;+Core/*'')]"
    by (simp add: build_file_filters_def)
  from ex inc used show ?thesis by blast
qed

text \<open>
  Claim C5. When the three configuration attributes are strings, \<^verbatim>\<open>Go\<close> runs exactly
  \<^verbatim>\<open>reportgenerator\<close> with the argument string made of the four flags
  \<^verbatim>\<open>-reports:\<close>, \<^verbatim>\<open>-targetdir:\<close>, \<^verbatim>\<open>-reporttypes:\<close>, \<^verbatim>\<open>-filefilters:\<close>, each
  preceded by one space and followed by its value, in this order. Conversely every external
  command that \<^verbatim>\<open>Go\<close> runs has this command name and this argument string.
\<close>

theorem Go_argument_string:
  "(coverage_files self = Some cf \<and> output_dir self = Some od \<and> report_type self = Some rt \<longrightarrow>
      invoked (Go RunCmd self) =
        [(''reportgenerator'',
          '' -reports:'' @ cf @ '' -targetdir:'' @ od @ '' -reporttypes:'' @ rt
            @ '' -filefilters:'' @ Go_file_filters self)])
   \<and> (\<forall>cmd args. (cmd, args) \<in> set (invoked (Go RunCmd self)) \<longrightarrow>
          cmd = ''reportgenerator''
        \<and> (\<exists>cf od rt. coverage_files self = Some cf \<and> output_dir self = Some od
              \<and> report_type self = Some rt
              \<and> args = '' -reports:'' @ cf @ '' -targetdir:'' @ od @ '' -reporttypes:'' @ rt
                         @ '' -filefilters:'' @ Go_file_filters self))"
proof (intro conjI impI allI)
  assume "coverage_files self = Some cf \<and> output_dir self = Some od \<and> report_type self = Some rt"
  then show "invoked (Go RunCmd self) =
        [(''reportgenerator'',
          '' -reports:'' @ cf @ '' -targetdir:'' @ od @ '' -reporttypes:'' @ rt
            @ '' -filefilters:'' @ Go_file_filters self)]"
    by (simp add: invoked_Go build_args_eq)
next
  fix cmd args
  assume run: "(cmd, args) \<in> set (invoked (Go RunCmd self))"
  then have "\<exists>c d t. coverage_files self = Some c \<and> output_dir self = Some d
      \<and> report_type self = Some t"
    by (cases "coverage_files self"; cases "output_dir self"; cases "report_type self")
      (simp_all add: invoked_Go)
  then obtain c d t where conf:
    "coverage_files self = Some c" "output_dir self = Some d" "report_type self = Some t"
    by blast
  with run have cmd: "cmd = ''reportgenerator''"
    and args: "args = build_args c d t (Go_file_filters self)"
    by (simp_all add: invoked_Go)
  from cmd show "cmd = ''reportgenerator''" .
  show "\<exists>cf od rt. coverage_files self = Some cf \<and> output_dir self = Some od
              \<and> report_type self = Some rt
              \<and> args = '' -reports:'' @ cf @ '' -targetdir:'' @ od @ '' -reporttypes:'' @ rt
                         @ '' -filefilters:'' @ Go_file_filters self"
  proof (intro exI conjI)
    show "coverage_files self = Some c" by (fact conf)
    show "output_dir self = Some d" by (fact conf)
    show "report_type self = Some t" by (fact conf)
    show "args = '' -reports:'' @ c @ '' -targetdir:'' @ d @ '' -reporttypes:'' @ t
                         @ '' -filefilters:'' @ Go_file_filters self"
      unfolding args by (rule build_args_eq)
  qed
qed

text \<open>The theorem at a concrete input.\<close>

theorem Go_argument_string_witness:
  "invoked (Go (\<lambda>cmd args. 1)
     \<lparr>coverage_files = Some ''Build/**/coverage.xml'', report_type = Some ''Cobertura'',
      output_dir = Some ''Build/Coverage'',
      PlatformSettings = \<lparr>GetCoverageExclusionList = [''Test/*''], GetCoverageInclusionList = []\<rparr>,
      inherited = (), assigned = []\<rparr>) =
     [(''reportgenerator'',
       '' -reports:Build/**/coverage.xml -targetdir:Build/Coverage -reporttypes:Cobertura -filefilters:-*AutoGen.c;-*UnitTest*;-Test/*'')]"
proof -
  let ?self = "\<lparr>coverage_files = Some ''Build/**/coverage.xml'', report_type = Some ''Cobertura'',
      output_dir = Some ''Build/Coverage'',
      PlatformSettings = \<lparr>GetCoverageExclusionList = [''Test/*''], GetCoverageInclusionList = []\<rparr>,
      inherited = (), assigned = []\<rparr>"
  have conf: "coverage_files ?self = Some ''Build/**/coverage.xml''
      \<and> output_dir ?self = Some ''Build/Coverage'' \<and> report_type ?self = Some ''Cobertura''"
    by simp
  have filters: "Go_file_filters ?self = ''-*AutoGen.c;-*UnitTest*;-Test/*''"
    by (simp add: Go_file_filters_baseline)
  from Go_argument_string [of ?self "''Build/**/coverage.xml''" "''Build/Coverage''" "''Cobertura''"
      "\<lambda>cmd args. 1", THEN conjunct1, THEN mp, OF conf]
  show ?thesis
    unfolding filters by simp
qed

text \<open>
  Claim C6. When both operations of the platform settings return the empty list, the
  filter expression is \<^verbatim>\<open>-*AutoGen.c;-*UnitTest*\<close>, and that is the expression in the
  argument string whenever the external tool is run.
\<close>

theorem empty_platform_lists_filter:
  "GetCoverageInclusionList (PlatformSettings self) = [] \<Longrightarrow>
   GetCoverageExclusionList (PlatformSettings self) = [] \<Longrightarrow>
   Go_file_filters self = ''-*AutoGen.c;-*UnitTest*''
   \<and> (invoked (Go RunCmd self) = []
      \<or> (\<exists>cf od rt. invoked (Go RunCmd self) =
            [(''reportgenerator'', build_args cf od rt ''-*AutoGen.c;-*UnitTest*'')]))"
  by (auto simp: invoked_Go Go_file_filters_baseline split: option.splits)

text \<open>The theorem at a concrete input.\<close>

theorem empty_platform_lists_filter_witness:
  "Go_file_filters
     \<lparr>coverage_files = Some ''Build/**/coverage.xml'', report_type = Some ''Cobertura'',
      output_dir = Some ''Build/Coverage'', PlatformSettings = default_CoverageSettingsManager,
      inherited = (), assigned = []\<rparr> = ''-*AutoGen.c;-*UnitTest*''
   \<and> invoked (Go (\<lambda>cmd args. 0)
     \<lparr>coverage_files = Some ''Build/**/coverage.xml'', report_type = Some ''Cobertura'',
      output_dir = Some ''Build/Coverage'', PlatformSettings = default_CoverageSettingsManager,
      inherited = (), assigned = []\<rparr>) =
     [(''reportgenerator'',
       '' -reports:Build/**/coverage.xml -targetdir:Build/Coverage -reporttypes:Cobertura -filefilters:-*AutoGen.c;-*UnitTest*'')]"
  using empty_platform_lists_filter
    [of "\<lparr>coverage_files = Some ''Build/**/coverage.xml'', report_type = Some ''Cobertura'',
      output_dir = Some ''Build/Coverage'', PlatformSettings = default_CoverageSettingsManager,
      inherited = (), assigned = []\<rparr>" "\<lambda>cmd args. 0"]
  by (simp add: default_CoverageSettingsManager_def invoked_Go build_args_eq)

text \<open>
  Claim C7. With the platform's inclusion list \<^verbatim>\<open>["Foo.c"]\<close> and exclusion list
  \<^verbatim>\<open>["Bar.c"]\<close>, the filter expression is
  \<^verbatim>\<open>-*AutoGen.c;-*UnitTest*;-Bar.c;+Foo.c\<close>.
\<close>

theorem foo_bar_filter:
  "GetCoverageInclusionList (PlatformSettings self) = [''Foo.c''] \<Longrightarrow>
   GetCoverageExclusionList (PlatformSettings self) = [''Bar.c''] \<Longrightarrow>
   Go_file_filters self = ''-*AutoGen.c;-*UnitTest*;-Bar.c;+Foo.c''
   \<and> (invoked (Go RunCmd self) = []
      \<or> (\<exists>cf od rt. invoked (Go RunCmd self) =
            [(''reportgenerator'', build_args cf od rt ''-*AutoGen.c;-*UnitTest*;-Bar.c;+Foo.c'')]))"
  by (auto simp: invoked_Go Go_file_filters_baseline split: option.splits)

text \<open>The theorem at a concrete input.\<close>

theorem foo_bar_filter_witness:
  "Go_file_filters
     \<lparr>coverage_files = Some ''cov/*.xml'', report_type = Some ''Html'',
      output_dir = Some ''out'',
      PlatformSettings = \<lparr>GetCoverageExclusionList = [''Bar.c''], GetCoverageInclusionList = [''Foo.c'']\<rparr>,
      inherited = (), assigned = []\<rparr> = ''-*AutoGen.c;-*UnitTest*;-Bar.c;+Foo.c''
   \<and> invoked (Go (\<lambda>cmd args. 0)
     \<lparr>coverage_files = Some ''cov/*.xml'', report_type = Some ''Html'',
      output_dir = Some ''out'',
      PlatformSettings = \<lparr>GetCoverageExclusionList = [''Bar.c''], GetCoverageInclusionList = [''Foo.c'']\<rparr>,
      inherited = (), assigned = []\<rparr>) =
     [(''reportgenerator'',
       '' -reports:cov/*.xml -targetdir:out -reporttypes:Html -filefilters:-*AutoGen.c;-*UnitTest*;-Bar.c;+Foo.c'')]"
  using foo_bar_filter
    [of "\<lparr>coverage_files = Some ''cov/*.xml'', report_type = Some ''Html'',
      output_dir = Some ''out'',
      PlatformSettings = \<lparr>GetCoverageExclusionList = [''Bar.c''], GetCoverageInclusionList = [''Foo.c'']\<rparr>,
      inherited = (), assigned = []\<rparr>" "\<lambda>cmd args. 0"]
  by (simp add: invoked_Go build_args_eq)

text \<open>
  Claim C8. \<^verbatim>\<open>Go\<close> leaves \<^verbatim>\<open>coverage_files\<close>, \<^verbatim>\<open>report_type\<close> and \<^verbatim>\<open>output_dir\<close>
  as they were and assigns to none of them, whatever the instance and the external tool's
  exit code (so on the success path, the missing-glob path and the tool-failure path alike).
  A successful \<^verbatim>\<open>RetrieveCommandLineOptions\<close> assigns the three attributes once each, in
  the order of the source, from the attributes of the same name of \<open>args\<close>. Starting
  from an instance without assignments, after retrieval and \<^verbatim>\<open>Go\<close> each of the three
  has been assigned exactly once.
\<close>

theorem configuration_written_once:
  "coverage_files (self_after (Go RunCmd self)) = coverage_files self
   \<and> report_type (self_after (Go RunCmd self)) = report_type self
   \<and> output_dir (self_after (Go RunCmd self)) = output_dir self
   \<and> assigned (self_after (Go RunCmd self)) = assigned self
   \<and> (RetrieveCommandLineOptions super_Retrieve args self0 = Inr self1 \<longrightarrow>
          assigned self1 = assigned self0 @ [''coverage_files'', ''report_type'', ''output_dir'']
        \<and> args ''coverage_files'' = Some (coverage_files self1)
        \<and> args ''report_type'' = Some (report_type self1)
        \<and> args ''output_dir'' = Some (output_dir self1)
        \<and> (assigned self0 = [] \<longrightarrow>
              count_list (assigned (self_after (Go RunCmd self1))) ''coverage_files'' = 1
            \<and> count_list (assigned (self_after (Go RunCmd self1))) ''report_type'' = 1
            \<and> count_list (assigned (self_after (Go RunCmd self1))) ''output_dir'' = 1))"
proof -
  have retr: "assigned self1 = assigned self0 @ [''coverage_files'', ''report_type'', ''output_dir'']
        \<and> args ''coverage_files'' = Some (coverage_files self1)
        \<and> args ''report_type'' = Some (report_type self1)
        \<and> args ''output_dir'' = Some (output_dir self1)"
    if "RetrieveCommandLineOptions super_Retrieve args self0 = Inr self1"
    using Retrieve_Inr [OF that] by auto
  have once: "count_list (assigned self1) ''coverage_files'' = 1
            \<and> count_list (assigned self1) ''report_type'' = 1
            \<and> count_list (assigned self1) ''output_dir'' = 1"
    if "RetrieveCommandLineOptions super_Retrieve args self0 = Inr self1" "assigned self0 = []"
    using retr [OF that(1)] that(2) by simp
  show ?thesis
    unfolding self_after_Go using retr once by blast
qed

text \<open>The theorem at a concrete input.\<close>

theorem configuration_written_once_witness:
  "RetrieveCommandLineOptions (\<lambda>args b. Inr b)
     [''coverage_files'' \<mapsto> Some ''c.xml'', ''report_type'' \<mapsto> Some ''Html'', ''output_dir'' \<mapsto> Some ''out'']
     \<lparr>coverage_files = None, report_type = None, output_dir = None,
      PlatformSettings = default_CoverageSettingsManager, inherited = (), assigned = []\<rparr>
   = Inr \<lparr>coverage_files = Some ''c.xml'', report_type = Some ''Html'', output_dir = Some ''out'',
      PlatformSettings = default_CoverageSettingsManager, inherited = (),
      assigned = [''coverage_files'', ''report_type'', ''output_dir'']\<rparr>
   \<and> assigned (self_after (Go (\<lambda>cmd args. 2)
       \<lparr>coverage_files = Some ''c.xml'', report_type = Some ''Html'', output_dir = Some ''out'',
        PlatformSettings = default_CoverageSettingsManager, inherited = (),
        assigned = [''coverage_files'', ''report_type'', ''output_dir'']\<rparr>))
     = [''coverage_files'', ''report_type'', ''output_dir'']
   \<and> count_list (assigned (self_after (Go (\<lambda>cmd args. 2)
       \<lparr>coverage_files = Some ''c.xml'', report_type = Some ''Html'', output_dir = Some ''out'',
        PlatformSettings = default_CoverageSettingsManager, inherited = (),
        assigned = [''coverage_files'', ''report_type'', ''output_dir'']\<rparr>))) ''coverage_files'' = 1"
proof -
  let ?args = "[''coverage_files'' \<mapsto> Some ''c.xml'', ''report_type'' \<mapsto> Some ''Html'',
                ''output_dir'' \<mapsto> Some ''out'']"
  let ?before = "\<lparr>coverage_files = None, report_type = None, output_dir = None,
      PlatformSettings = default_CoverageSettingsManager, inherited = (), assigned = []\<rparr>"
  let ?after = "\<lparr>coverage_files = Some ''c.xml'', report_type = Some ''Html'', output_dir = Some ''out'',
      PlatformSettings = default_CoverageSettingsManager, inherited = (),
      assigned = [''coverage_files'', ''report_type'', ''output_dir'']\<rparr>"
  have retr: "RetrieveCommandLineOptions (\<lambda>args b. Inr b) ?args ?before = Inr ?after"
    by (simp add: RetrieveCommandLineOptions_def getattr_ns_def set_coverage_files_def
        set_report_type_def set_output_dir_def)
  have empty: "assigned ?before = []" by simp
  from configuration_written_once [of "\<lambda>cmd args. 2" ?after "\<lambda>args b. Inr b" ?args ?before ?after]
  have "assigned (self_after (Go (\<lambda>cmd args. 2) ?after)) = assigned ?after"
    and "count_list (assigned (self_after (Go (\<lambda>cmd args. 2) ?after))) ''coverage_files'' = 1"
    using retr empty by blast+
  with retr show ?thesis by simp
qed

text \<open>
  Claim C9. For every platform settings object the filter expression is not empty: it
  begins with the two baseline tokens \<^verbatim>\<open>-*AutoGen.c\<close> and \<^verbatim>\<open>-*UnitTest*\<close> joined by
  \<^verbatim>\<open>;\<close>, and what follows is empty or starts with a separator. When the three
  configuration attributes are strings, \<^verbatim>\<open>Go\<close> runs the external tool with this
  expression as the value of \<^verbatim>\<open>-filefilters:\<close>, and every command \<^verbatim>\<open>Go\<close> runs has
  this expression there; so the flag always carries a non-empty value.
\<close>

theorem filter_expression_never_empty:
  "Go_file_filters self \<noteq> ''''
   \<and> (\<exists>rest. Go_file_filters self = ''-*AutoGen.c'' @ '';'' @ ''-*UnitTest*'' @ rest
          \<and> (rest = '''' \<or> (\<exists>more. rest = '';'' @ more)))
   \<and> (coverage_files self = Some cf \<and> output_dir self = Some od \<and> report_type self = Some rt \<longrightarrow>
        invoked (Go RunCmd self) =
          [(''reportgenerator'',
            '' -reports:'' @ cf @ '' -targetdir:'' @ od @ '' -reporttypes:'' @ rt
              @ '' -filefilters:'' @ Go_file_filters self)])
   \<and> (invoked (Go RunCmd self) = []
      \<or> (\<exists>cf od rt. invoked (Go RunCmd self) =
            [(''reportgenerator'',
              '' -reports:'' @ cf @ '' -targetdir:'' @ od @ '' -reporttypes:'' @ rt
                @ '' -filefilters:'' @ Go_file_filters self)]))"
proof -
  let ?tail = "concat (map ((@) '';'') (map ((@) ''-'') (GetCoverageExclusionList (PlatformSettings self))
                  @ map ((@) ''+'') (GetCoverageInclusionList (PlatformSettings self))))"
  have base: "Go_file_filters self = ''-*AutoGen.c;-*UnitTest*'' @ ?tail"
    by (rule Go_file_filters_baseline)
  have ne: "Go_file_filters self \<noteq> ''''"
    unfolding base by simp
  have tail: "?tail = '''' \<or> (\<exists>more. ?tail = '';'' @ more)"
  proof (cases "GetCoverageExclusionList (PlatformSettings self)")
    case Nil
    then show ?thesis
      by (cases "GetCoverageInclusionList (PlatformSettings self)") simp_all
  next
    case (Cons e es)
    then show ?thesis by simp
  qed
  have begins: "\<exists>rest. Go_file_filters self = ''-*AutoGen.c'' @ '';'' @ ''-*UnitTest*'' @ rest
          \<and> (rest = '''' \<or> (\<exists>more. rest = '';'' @ more))"
    using base tail by (intro exI [of _ ?tail]) simp
  have passed: "coverage_files self = Some cf \<and> output_dir self = Some od \<and> report_type self = Some rt \<longrightarrow>
        invoked (Go RunCmd self) =
          [(''reportgenerator'',
            '' -reports:'' @ cf @ '' -targetdir:'' @ od @ '' -reporttypes:'' @ rt
              @ '' -filefilters:'' @ Go_file_filters self)]"
    using invoked_Go_configured by blast
  have run: "invoked (Go RunCmd self) = []
      \<or> (\<exists>cf od rt. invoked (Go RunCmd self) =
            [(''reportgenerator'',
              '' -reports:'' @ cf @ '' -targetdir:'' @ od @ '' -reporttypes:'' @ rt
                @ '' -filefilters:'' @ Go_file_filters self)])"
  proof (cases "invoked (Go RunCmd self) = []")
    case True
    then show ?thesis by simp
  next
    case False
    then have "\<exists>c d t. coverage_files self = Some c \<and> output_dir self = Some d
        \<and> report_type self = Some t"
      by (cases "coverage_files self"; cases "output_dir self"; cases "report_type self")
        (simp_all add: invoked_Go)
    then obtain c d t where "coverage_files self = Some c \<and> output_dir self = Some d
        \<and> report_type self = Some t"
      by blast
    from invoked_Go_configured [OF this] show ?thesis by blast
  qed
  from ne begins passed run show ?thesis by blast
qed

text \<open>The theorem at a concrete input.\<close>

theorem filter_expression_never_empty_witness:
  "Go_file_filters
     \<lparr>coverage_files = Some ''c.xml'', report_type = Some ''Html'', output_dir = Some ''out'',
      PlatformSettings = \<lparr>GetCoverageExclusionList = [], GetCoverageInclusionList = [''Only.c'']\<rparr>,
      inherited = (), assigned = []\<rparr> \<noteq> ''''
   \<and> invoked (Go (\<lambda>cmd cmdline. 0)
     \<lparr>coverage_files = Some ''c.xml'', report_type = Some ''Html'', output_dir = Some ''out'',
      PlatformSettings = \<lparr>GetCoverageExclusionList = [], GetCoverageInclusionList = [''Only.c'']\<rparr>,
      inherited = (), assigned = []\<rparr>)
     = [(''reportgenerator'',
         '' -reports:c.xml -targetdir:out -reporttypes:Html -filefilters:-*AutoGen.c;-*UnitTest*;+Only.c'')]
   \<and> invoked (Go (\<lambda>cmd cmdline. 0)
     \<lparr>coverage_files = Some ''c.xml'', report_type = Some ''Html'', output_dir = Some ''out'',
      PlatformSettings = default_CoverageSettingsManager,
      inherited = (), assigned = []\<rparr>)
     = [(''reportgenerator'',
         '' -reports:c.xml -targetdir:out -reporttypes:Html -filefilters:-*AutoGen.c;-*UnitTest*'')]"
proof -
  let ?inst = "\<lparr>coverage_files = Some ''c.xml'', report_type = Some ''Html'', output_dir = Some ''out'',
      PlatformSettings = \<lparr>GetCoverageExclusionList = [], GetCoverageInclusionList = [''Only.c'']\<rparr>,
      inherited = (), assigned = []\<rparr>"
  let ?bare = "\<lparr>coverage_files = Some ''c.xml'', report_type = Some ''Html'', output_dir = Some ''out'',
      PlatformSettings = default_CoverageSettingsManager,
      inherited = (), assigned = []\<rparr>"
  note at_inst = filter_expression_never_empty [where self = ?inst and cf = "''c.xml''"
      and od = "''out''" and rt = "''Html''" and RunCmd = "\<lambda>cmd cmdline. 0"]
  note at_bare = filter_expression_never_empty [where self = ?bare and cf = "''c.xml''"
      and od = "''out''" and rt = "''Html''" and RunCmd = "\<lambda>cmd cmdline. 0"]
  have conf: "coverage_files ?inst = Some ''c.xml'' \<and> output_dir ?inst = Some ''out''
      \<and> report_type ?inst = Some ''Html''"
    by simp
  have conf': "coverage_files ?bare = Some ''c.xml'' \<and> output_dir ?bare = Some ''out''
      \<and> report_type ?bare = Some ''Html''"
    by simp
  have ne: "Go_file_filters ?inst \<noteq> ''''"
    by (rule at_inst [THEN conjunct1])
  from at_inst [THEN conjunct2, THEN conjunct2, THEN conjunct1, THEN mp, OF conf]
  have passed: "invoked (Go (\<lambda>cmd cmdline. 0) ?inst)
     = [(''reportgenerator'',
         '' -reports:c.xml -targetdir:out -reporttypes:Html -filefilters:-*AutoGen.c;-*UnitTest*;+Only.c'')]"
    by (simp add: Go_file_filters_baseline)
  from at_bare [THEN conjunct2, THEN conjunct2, THEN conjunct1, THEN mp, OF conf']
  have passed': "invoked (Go (\<lambda>cmd cmdline. 0) ?bare)
     = [(''reportgenerator'',
         '' -reports:c.xml -targetdir:out -reporttypes:Html -filefilters:-*AutoGen.c;-*UnitTest*'')]"
    by (simp add: Go_file_filters_baseline default_CoverageSettingsManager_def)
  from ne passed passed' show ?thesis by blast
qed

text \<open>
  Claim C10. Let the parser be one on which no argument with destination
  \<^verbatim>\<open>coverage_files\<close> was registered before \<^verbatim>\<open>AddCommandLineOptions\<close>, and let the base
  class register its arguments \<open>base_arguments\<close> after the three of this file. When this
  parser accepts a command line and the options are retrieved from the namespace it
  produces, then \<^verbatim>\<open>coverage_files\<close> is a string, not \<^verbatim>\<open>None\<close>. It is the default
  \<^verbatim>\<open>Build/**/coverage.xml\<close> when no base-class argument stores to that destination and
  no token of the command line, cut at its \<^verbatim>\<open>=\<close>, is \<^verbatim>\<open>--coverage-files\<close> or an
  abbreviation of it. \<^verbatim>\<open>Go\<close> then does not log the missing-glob error, and it returns
  \<open>-1\<close> only as the exit code of the external tool it ran.
\<close>

theorem parser_default_excludes_missing_glob:
  assumes fresh: "\<forall>a \<in> set (actions parserObj). dest a \<noteq> ''coverage_files''"
    and parsed: "parse_args
                   (AddCommandLineOptions (\<lambda>p. p\<lparr>actions := actions p @ base_arguments\<rparr>) parserObj)
                   argv = Inr args"
    and retr: "RetrieveCommandLineOptions super_Retrieve args self0 = Inr self"
  shows "(\<exists>v. coverage_files self = Some v)
     \<and> ((\<forall>a \<in> set base_arguments. dest a \<noteq> ''coverage_files'')
          \<and> (\<forall>ov \<in> set argv. \<not> startswith ''--coverage-files'' (fst (partition_eq (fst ov))))
        \<longrightarrow> coverage_files self = Some ''Build/**/coverage.xml'')
     \<and> (ERROR, ''Path to coverage file is required!\<newline>'') \<notin> set (logged (Go RunCmd self))
     \<and> (returned (Go RunCmd self) = Inr (- 1) \<longrightarrow>
          (\<exists>cmdline. invoked (Go RunCmd self) = [(''reportgenerator'', cmdline)]
              \<and> RunCmd ''reportgenerator'' cmdline = - 1))"
proof -
  let ?p = "AddCommandLineOptions (\<lambda>p. p\<lparr>actions := actions p @ base_arguments\<rparr>) parserObj"
  from Retrieve_Inr [OF retr] have read: "args ''coverage_files'' = Some (coverage_files self)"
    by auto
  from parse_args_coverage_files_str [OF fresh parsed]
  obtain v where v: "args ''coverage_files'' = Some (Some v)" by blast
  with read have given: "coverage_files self = Some v" by simp
  have dflt: "coverage_files self = Some ''Build/**/coverage.xml''"
    if base: "\<forall>a \<in> set base_arguments. dest a \<noteq> ''coverage_files''"
      and cl: "\<forall>ov \<in> set argv. \<not> startswith ''--coverage-files'' (fst (partition_eq (fst ov)))"
  proof -
    have other: "\<forall>ov \<in> set argv. \<forall>a e.
        parse_optional ?p (fst ov) = Inr (Some (a, e)) \<longrightarrow> dest a \<noteq> ''coverage_files''"
      using coverage_files_option_selected [OF fresh base] cl by blast
    from parsed have "store_options ?p argv (fold add_default (actions ?p) Map.empty) = Inr args"
      by (simp add: parse_args_def)
    from store_options_other [OF this other]
    have "args ''coverage_files'' = Some (Some ''Build/**/coverage.xml'')"
      by (simp add: default_coverage_files [OF fresh])
    with read show ?thesis by simp
  qed
  have quiet: "(ERROR, ''Path to coverage file is required!\<newline>'') \<notin> set (logged (Go RunCmd self))"
    using given by (rule no_error_logged_when_set)
  have minus: "\<exists>cmdline. invoked (Go RunCmd self) = [(''reportgenerator'', cmdline)]
              \<and> RunCmd ''reportgenerator'' cmdline = - 1"
    if "returned (Go RunCmd self) = Inr (- 1)"
    using returned_Go_cases [OF that] given by auto
  from given dflt quiet minus show ?thesis by blast
qed

text \<open>The theorem at a concrete input.\<close>

theorem parser_default_excludes_missing_glob_witness:
  "(case parse_args
           (AddCommandLineOptions
              (\<lambda>p. p\<lparr>actions := actions p @
                 [\<lparr>option_string = ''-p'', dest = ''packageList'', default_value = None,
                   help_text = ''Packages to use''\<rparr>]\<rparr>)
              \<lparr>allow_abbrev = True, actions = []\<rparr>)
           [(''--report-t'', ''Html'')] of
      Inl e \<Rightarrow> Inl e
    | Inr args \<Rightarrow>
        RetrieveCommandLineOptions (\<lambda>args b. Inr b) args
          \<lparr>coverage_files = None, report_type = None, output_dir = None,
           PlatformSettings = default_CoverageSettingsManager, inherited = (), assigned = []\<rparr>)
   = Inr \<lparr>coverage_files = Some ''Build/**/coverage.xml'', report_type = Some ''Html'',
      output_dir = Some ''Build/Coverage'',
      PlatformSettings = default_CoverageSettingsManager, inherited = (),
      assigned = [''coverage_files'', ''report_type'', ''output_dir'']\<rparr>
   \<and> (ERROR, ''Path to coverage file is required!\<newline>'') \<notin> set (logged (Go (\<lambda>cmd cmdline. 0)
      \<lparr>coverage_files = Some ''Build/**/coverage.xml'', report_type = Some ''Html'',
      output_dir = Some ''Build/Coverage'',
      PlatformSettings = default_CoverageSettingsManager, inherited = (),
      assigned = [''coverage_files'', ''report_type'', ''output_dir'']\<rparr>))
   \<and> (case parse_args
           (AddCommandLineOptions
              (\<lambda>p. p\<lparr>actions := actions p @
                 [\<lparr>option_string = ''-p'', dest = ''packageList'', default_value = None,
                   help_text = ''Packages to use''\<rparr>]\<rparr>)
              \<lparr>allow_abbrev = True, actions = []\<rparr>)
           [(''--coverage-f'', ''x.xml'')] of
      Inl e \<Rightarrow> None
    | Inr args \<Rightarrow> args ''coverage_files'') = Some (Some ''x.xml'')"
proof -
  let ?base = "[\<lparr>option_string = ''-p'', dest = ''packageList'', default_value = None,
                 help_text = ''Packages to use''\<rparr>]"
  let ?fresh = "\<lparr>allow_abbrev = True, actions = []\<rparr>"
  let ?parser = "AddCommandLineOptions (\<lambda>p. p\<lparr>actions := actions p @ ?base\<rparr>) ?fresh"
  let ?argv = "[(''--report-t'', ''Html'')]"
  let ?before = "\<lparr>coverage_files = None, report_type = None, output_dir = None,
      PlatformSettings = default_CoverageSettingsManager, inherited = (), assigned = []\<rparr>"
  let ?after = "\<lparr>coverage_files = Some ''Build/**/coverage.xml'', report_type = Some ''Html'',
      output_dir = Some ''Build/Coverage'',
      PlatformSettings = default_CoverageSettingsManager, inherited = (),
      assigned = [''coverage_files'', ''report_type'', ''output_dir'']\<rparr>"
  have fresh: "\<forall>a \<in> set (actions ?fresh). dest a \<noteq> ''coverage_files''"
    by simp
  have run: "(case parse_args ?parser ?argv of
                Inl e \<Rightarrow> Inl e
              | Inr args \<Rightarrow> RetrieveCommandLineOptions (\<lambda>args b. Inr b) args ?before) = Inr ?after"
    by code_simp
  then obtain args where parsed: "parse_args ?parser ?argv = Inr args"
    and retr: "RetrieveCommandLineOptions (\<lambda>args b. Inr b) args ?before = Inr ?after"
    by (cases "parse_args ?parser ?argv") simp_all
  have base: "\<forall>a \<in> set ?base. dest a \<noteq> ''coverage_files''"
    by simp
  have cl: "\<forall>ov \<in> set ?argv. \<not> startswith ''--coverage-files'' (fst (partition_eq (fst ov)))"
    by (simp add: startswith_def partition_eq_def)
  from parser_default_excludes_missing_glob [OF fresh parsed retr, of "\<lambda>cmd cmdline. 0"] base cl
  have quiet: "(ERROR, ''Path to coverage file is required!\<newline>'')
      \<notin> set (logged (Go (\<lambda>cmd cmdline. 0) ?after))"
    and "coverage_files ?after = Some ''Build/**/coverage.xml''"
    by blast+
  have abbreviated: "(case parse_args ?parser [(''--coverage-f'', ''x.xml'')] of
      Inl e \<Rightarrow> None | Inr args \<Rightarrow> args ''coverage_files'') = Some (Some ''x.xml'')"
    by code_simp
  from run quiet abbreviated show ?thesis by blast
qed

end
